theory Spec2Isabelle
  imports Complex_Main
begin

section \<open>The equation-of-state base class of VarFcnBase.h\<close>

text \<open>
  The header defines one class, \<^verbatim>\<open>VarFcnBase\<close>: two admissibility floors and a
  verbosity flag, five virtual thermodynamic relations whose base versions abort, and the
  generic algebra written in terms of those relations (state transforms, sound speed, Mach
  number, enthalpy, hyperbolicity check, clipping).

  Conventions of the embedding.
  \<^item> A \<^verbatim>\<open>double\<close> is a \<open>real\<close>. The definitions that carry the source's names
    compute in the reals: they say which expression each function evaluates, which
    branch it takes and what it writes. Where a statement compares two computed values,
    or bounds their distance, the rounding of the operations decides it, and the
    statement is made about the definitions with the suffix \<open>_fl\<close>, in which every
    arithmetic operation is followed by its rounding \<open>fl53\<close> to the nearest binary64
    value.
  \<^item> The exponent range is unbounded: overflow, gradual underflow, infinities and NaN are
    outside the model, and a bound on a rounding error carries the hypothesis
    \<open>normal_range\<close> for the results it is about. An IEEE quotient by zero is an infinity
    or a NaN; the model has HOL's quotient there, so a statement whose truth depends on
    the value of a quotient carries the hypothesis that the divisor is not zero.
  \<^item> A \<^verbatim>\<open>double *\<close> is the array it points to, a function from index to value; an
    assignment \<^verbatim>\<open>V[i] = x\<close> is a function update, and a function that writes through a
    pointer returns the array after the call. The arrays behind \<^verbatim>\<open>V\<close> and \<^verbatim>\<open>U\<close> are
    separate objects. The default argument \<^verbatim>\<open>U = 0\<close> is \<open>None\<close>.
  \<^item> Termination of the process is the left summand of a sum type and carries the
    diagnostic written just before; a normal return is the right summand.
  \<^item> The operands of one C++ expression are evaluated left to right. The order only
    decides which diagnostic is written when more than one relation of the variant aborts.
  \<^item> Diagnostics written on the normal path are returned as a list of events.
\<close>

subsection \<open>Data\<close>

type_synonym darray = "nat \<Rightarrow> real"

text \<open>The diagnostic written before the process is terminated.\<close>

datatype error =
    NotDefined string
  | SoundSpeedError real real
  | MachNumberError real "real list"

text \<open>The diagnostics of the normal path, each with the numbers it prints.\<close>

datatype diag =
    HyperbolicityWarning real real
  | ClipDensityMsg real real
  | ClipPressureMsg real real

text \<open>
  The part of \<^verbatim>\<open>MaterialModelData\<close> (declared in IoData.h) that the constructor reads.
\<close>

record MaterialModelData =
  data_rhomin :: real
  data_pmin :: real

text \<open>
  An object of the class: the three data members and the five virtual relations, which a
  derived class overrides.
\<close>

record VarFcnBase =
  rhomin :: real
  pmin :: real
  verbose :: bool
  GetPressure :: "real \<Rightarrow> real \<Rightarrow> error + real"
  GetInternalEnergyPerUnitMass :: "real \<Rightarrow> real \<Rightarrow> error + real"
  GetDensity :: "real \<Rightarrow> real \<Rightarrow> error + real"
  GetDpdrho :: "real \<Rightarrow> real \<Rightarrow> error + real"
  GetBigGamma :: "real \<Rightarrow> real \<Rightarrow> error + real"

subsection \<open>Termination and sequencing\<close>

text \<open>
  Modelled from the spec: \<^verbatim>\<open>print_error\<close> and \<^verbatim>\<open>exit_mpi\<close> are declared in Utils.h,
  which is not part of the source tree. The specification describes them as a synchronous
  message-emission function and a process-terminating fatal-error function: nothing after
  \<^verbatim>\<open>exit_mpi()\<close> is executed. The argument is the diagnostic written before the call.
\<close>

definition exit_mpi :: "error \<Rightarrow> error + 'a" where
  "exit_mpi d = Inl d"

text \<open>Evaluate a call; go on with its value unless it terminated the process.\<close>

definition on_value :: "error + 'a \<Rightarrow> ('a \<Rightarrow> error + 'b) \<Rightarrow> error + 'b" where
  "on_value r f = (case r of Inl d \<Rightarrow> Inl d | Inr x \<Rightarrow> f x)"

subsection \<open>The base class\<close>

definition endl :: string where
  "endl = [CHR 0x0A]"

text \<open>
  The constructor copies the two floors and the flag. The relations are the base versions:
  each writes its message and terminates.
\<close>

definition VarFcnBase_new :: "MaterialModelData \<Rightarrow> bool \<Rightarrow> VarFcnBase" where
  "VarFcnBase_new data verbose0 =
     \<lparr> rhomin = data_rhomin data,
       pmin = data_pmin data,
       verbose = verbose0,
       GetPressure = (\<lambda>rho e.
         exit_mpi (NotDefined (''*** Error:  GetPressure Function not defined'' @ endl))),
       GetInternalEnergyPerUnitMass = (\<lambda>rho p.
         exit_mpi (NotDefined
           (''*** Error:  GetInternalEnergyPerUnitMass Function not defined'' @ endl))),
       GetDensity = (\<lambda>p e.
         exit_mpi (NotDefined (''*** Error:  GetDensity Function not defined'' @ endl))),
       GetDpdrho = (\<lambda>rho e.
         exit_mpi (NotDefined (''*** Error:  GetDpdrho Function not defined'' @ endl))),
       GetBigGamma = (\<lambda>rho e.
         exit_mpi (NotDefined (''*** Error:  GetBigGamma Function not defined'' @ endl))) \<rparr>"

subsection \<open>Hyperbolicity check\<close>


subsection \<open>Transformation operators\<close>


definition PrimitiveToConservative :: "VarFcnBase \<Rightarrow> darray \<Rightarrow> darray \<Rightarrow> error + darray" where
  "PrimitiveToConservative m V U =
     (let U = U(0 := V 0);
          U = U(1 := V 0 * V 1);
          U = U(2 := V 0 * V 2);
          U = U(3 := V 0 * V 3)
      in on_value (GetInternalEnergyPerUnitMass m (V 0) (V 4)) (\<lambda>e.
           Inr (U(4 := V 0 * (e + 0.5 * (V 1 * V 1 + V 2 * V 2 + V 3 * V 3))))))"

subsection \<open>General functions\<close>

definition ComputeSoundSpeed :: "VarFcnBase \<Rightarrow> real \<Rightarrow> real \<Rightarrow> error + real" where
  "ComputeSoundSpeed m rho e =
     on_value (GetDpdrho m rho e) (\<lambda>dpdrho.
     on_value (GetPressure m rho e) (\<lambda>p.
     on_value (GetBigGamma m rho e) (\<lambda>bigGamma.
       let c2 = dpdrho + p / rho * bigGamma in
       if c2 \<le> 0 then exit_mpi (SoundSpeedError rho e) else Inr (sqrt c2))))"

definition ComputeSoundSpeedSquare :: "VarFcnBase \<Rightarrow> real \<Rightarrow> real \<Rightarrow> error + real" where
  "ComputeSoundSpeedSquare m rho e =
     on_value (GetDpdrho m rho e) (\<lambda>dpdrho.
     on_value (GetPressure m rho e) (\<lambda>p.
     on_value (GetBigGamma m rho e) (\<lambda>bigGamma.
       Inr (dpdrho + p / rho * bigGamma))))"

definition ComputeMachNumber :: "VarFcnBase \<Rightarrow> darray \<Rightarrow> error + real" where
  "ComputeMachNumber m V =
     on_value (GetInternalEnergyPerUnitMass m (V 0) (V 4)) (\<lambda>e.
     on_value (ComputeSoundSpeedSquare m (V 0) e) (\<lambda>c.
       if c < 0 then exit_mpi (MachNumberError c [V 0, V 1, V 2, V 3, V 4])
       else (let c = sqrt c in Inr (sqrt (V 1 * V 1 + V 2 * V 2 + V 3 * V 3) / c))))"


subsection \<open>Clipping\<close>

text \<open>
  The result is the list of diagnostics written, and then either the termination raised
  inside \<^verbatim>\<open>PrimitiveToConservative\<close> or the returned flag with the two arrays after
  the call.
\<close>

definition ClipDensityAndPressure ::
  "VarFcnBase \<Rightarrow> darray \<Rightarrow> darray option \<Rightarrow> diag list \<times> (error + (bool \<times> darray \<times> darray option))" where
  "ClipDensityAndPressure m V U =
     (let clip = False;
          out = [];
          (V, clip, out) =
            (if V 0 < rhomin m
             then (V(0 := rhomin m), True,
                   out @ (if verbose m then [ClipDensityMsg (V 0) (rhomin m)] else []))
             else (V, clip, out));
          (V, clip, out) =
            (if V 4 < pmin m
             then (V(4 := pmin m), True,
                   out @ (if verbose m then [ClipPressureMsg (V 4) (pmin m)] else []))
             else (V, clip, out))
      in (out,
          case U of
            Some U0 \<Rightarrow>
              if clip then on_value (PrimitiveToConservative m V U0) (\<lambda>U'. Inr (clip, V, Some U'))
              else Inr (clip, V, U)
          | None \<Rightarrow> Inr (clip, V, U)))"

subsection \<open>Instances used to run the definitions\<close>

text \<open>
  The derived classes are not part of the header. The instance below is the variant of the
  specification's scenario A, \<open>p = (\<gamma> - 1) \<rho> e\<close> with \<open>\<gamma> = 1.4\<close>, with its inverse and
  its two partial derivatives, and floors \<open>10\<^sup>-\<^sup>6\<close>.
\<close>

definition perfect_gas :: VarFcnBase where
  "perfect_gas =
     \<lparr> rhomin = 1 / 1000000,
       pmin = 1 / 1000000,
       verbose = True,
       GetPressure = (\<lambda>rho e. Inr (2 / 5 * rho * e)),
       GetInternalEnergyPerUnitMass = (\<lambda>rho p. Inr (p / (2 / 5 * rho))),
       GetDensity = (\<lambda>p e. Inr (p / (2 / 5 * e))),
       GetDpdrho = (\<lambda>rho e. Inr (2 / 5 * e)),
       GetBigGamma = (\<lambda>rho e. Inr (2 / 5)) \<rparr>"

definition vec5 :: "real \<Rightarrow> real \<Rightarrow> real \<Rightarrow> real \<Rightarrow> real \<Rightarrow> darray" where
  "vec5 a b c d e = (\<lambda>i. 0)(0 := a, 1 := b, 2 := c, 3 := d, 4 := e)"

text \<open>
  A variant whose pressure is its internal energy per unit mass, at every density, with
  floors zero. \<^verbatim>\<open>GetDensity\<close> is the base version.
\<close>

definition energy_eos :: VarFcnBase where
  "energy_eos =
     \<lparr> rhomin = 0,
       pmin = 0,
       verbose = False,
       GetPressure = (\<lambda>rho e. Inr e),
       GetInternalEnergyPerUnitMass = (\<lambda>rho p. Inr p),
       GetDensity = (\<lambda>p e.
         exit_mpi (NotDefined (''*** Error:  GetDensity Function not defined'' @ endl))),
       GetDpdrho = (\<lambda>rho e. Inr 0),
       GetBigGamma = (\<lambda>rho e. Inr (1 / rho)) \<rparr>"

subsection \<open>Consistency of a variant\<close>


section \<open>Double arithmetic with rounding\<close>

subsection \<open>Rounding to binary64\<close>

text \<open>Two to an integer power.\<close>

definition pow2 :: "int \<Rightarrow> real" where
  "pow2 k = (if 0 \<le> k then 2 ^ nat k else 1 / 2 ^ nat (- k))"

text \<open>The integer nearest to a real, the even one of the two when it lies half way.\<close>

definition round_even :: "real \<Rightarrow> int" where
  "round_even r =
     (let f = \<lfloor>r\<rfloor> in
      if r - of_int f < 1 / 2 then f
      else if 1 / 2 < r - of_int f then f + 1
      else if even f then f else f + 1)"

text \<open>
  Rounding to nearest, ties to even, with a significand of 53 bits: for \<open>x\<close> between
  \<open>2\<^sup>k\<close> and \<open>2\<^sup>k\<^sup>+\<^sup>1\<close> the representable values are the multiples of \<open>2\<^sup>k\<^sup>-\<^sup>5\<^sup>2\<close>. This is
  the rounding of every binary64 operation in the default mode, and of \<^verbatim>\<open>sqrt\<close>.
\<close>

definition fl53 :: "real \<Rightarrow> real" where
  "fl53 x =
     (if x = 0 then 0
      else (let q = pow2 (\<lfloor>log 2 \<bar>x\<bar>\<rfloor> - 52) in q * of_int (round_even (x / q))))"

text \<open>
  The magnitudes at which a binary64 result is rounded as \<open>fl53\<close> rounds it: zero, which
  is exact, and the normal numbers up to \<open>2\<^sup>1\<^sup>0\<^sup>2\<^sup>3\<close>.
\<close>

definition normal_range :: "real \<Rightarrow> bool" where
  "normal_range x \<longleftrightarrow> x = 0 \<or> (pow2 (- 1022) \<le> \<bar>x\<bar> \<and> \<bar>x\<bar> \<le> pow2 1023)"

subsection \<open>The functions that compute, operation by operation\<close>



definition ComputeSoundSpeed_fl :: "VarFcnBase \<Rightarrow> real \<Rightarrow> real \<Rightarrow> error + real" where
  "ComputeSoundSpeed_fl m rho e =
     on_value (GetDpdrho m rho e) (\<lambda>dpdrho.
     on_value (GetPressure m rho e) (\<lambda>p.
     on_value (GetBigGamma m rho e) (\<lambda>bigGamma.
       let c2 = fl53 (dpdrho + fl53 (fl53 (p / rho) * bigGamma)) in
       if c2 \<le> 0 then exit_mpi (SoundSpeedError rho e) else Inr (fl53 (sqrt c2)))))"

definition ComputeSoundSpeedSquare_fl :: "VarFcnBase \<Rightarrow> real \<Rightarrow> real \<Rightarrow> error + real" where
  "ComputeSoundSpeedSquare_fl m rho e =
     on_value (GetDpdrho m rho e) (\<lambda>dpdrho.
     on_value (GetPressure m rho e) (\<lambda>p.
     on_value (GetBigGamma m rho e) (\<lambda>bigGamma.
       Inr (fl53 (dpdrho + fl53 (fl53 (p / rho) * bigGamma))))))"


section \<open>Auxiliary facts\<close>

lemma on_value_Inr [simp]: "on_value (Inr x) f = f x"
  by (simp add: on_value_def)

lemma on_value_Inl [simp]: "on_value (Inl d) f = Inl d"
  by (simp add: on_value_def)

subsection \<open>Five-element arrays\<close>

lemma vec5_nth:
  "vec5 a b c d e 0 = a" "vec5 a b c d e (Suc 0) = b" "vec5 a b c d e 2 = c"
  "vec5 a b c d e 3 = d" "vec5 a b c d e 4 = e"
  by (simp_all add: vec5_def)

lemma vec5_upd:
  "(vec5 a b c d e)(0 := x) = vec5 x b c d e"
  "(vec5 a b c d e)(Suc 0 := x) = vec5 a x c d e"
  "(vec5 a b c d e)(2 := x) = vec5 a b x d e"
  "(vec5 a b c d e)(3 := x) = vec5 a b c x e"
  "(vec5 a b c d e)(4 := x) = vec5 a b c d x"
  by (auto simp add: vec5_def fun_eq_iff)

lemma vec5_eq_iff:
  "vec5 a b c d e = vec5 a' b' c' d' e' \<longleftrightarrow>
     a = a' \<and> b = b' \<and> c = c' \<and> d = d' \<and> e = e'"
proof
  assume eq: "vec5 a b c d e = vec5 a' b' c' d' e'"
  have "vec5 a b c d e 0 = vec5 a' b' c' d' e' 0"
    "vec5 a b c d e (Suc 0) = vec5 a' b' c' d' e' (Suc 0)"
    "vec5 a b c d e 2 = vec5 a' b' c' d' e' 2"
    "vec5 a b c d e 3 = vec5 a' b' c' d' e' 3"
    "vec5 a b c d e 4 = vec5 a' b' c' d' e' 4"
    by (simp_all only: eq)
  then show "a = a' \<and> b = b' \<and> c = c' \<and> d = d' \<and> e = e'"
    by (simp add: vec5_nth)
qed simp

lemmas vec5_simps = vec5_nth vec5_upd vec5_eq_iff

subsection \<open>The second instance is consistent\<close>



subsection \<open>Clipping in closed form\<close>

text \<open>
  Each clamp replaces an entry by the larger of the entry and its floor; the flag is set
  when either entry was below its floor.
\<close>

lemma Clip_unfold:
  "ClipDensityAndPressure m V U =
     ((if V 0 < rhomin m \<and> verbose m then [ClipDensityMsg (V 0) (rhomin m)] else []) @
      (if V 4 < pmin m \<and> verbose m then [ClipPressureMsg (V 4) (pmin m)] else []),
      case U of
        None \<Rightarrow> Inr (V 0 < rhomin m \<or> V 4 < pmin m,
                     V(0 := max (V 0) (rhomin m), 4 := max (V 4) (pmin m)), None)
      | Some U0 \<Rightarrow>
          if V 0 < rhomin m \<or> V 4 < pmin m
          then on_value
                 (PrimitiveToConservative m
                    (V(0 := max (V 0) (rhomin m), 4 := max (V 4) (pmin m))) U0)
                 (\<lambda>U'. Inr (True, V(0 := max (V 0) (rhomin m), 4 := max (V 4) (pmin m)),
                            Some U'))
          else Inr (False, V, Some U0))"
  by (cases U) (auto simp add: ClipDensityAndPressure_def Let_def max_def fun_upd_idem)

text \<open>Scenario B of the specification, with a conservative array supplied.\<close>

lemma Clip_scenario_B:
  "ClipDensityAndPressure perfect_gas (vec5 (1 / 100000000) 0 0 0 (1 / 100000000))
     (Some (vec5 0 0 0 0 0)) =
   ([ClipDensityMsg (1 / 100000000) (1 / 1000000), ClipPressureMsg (1 / 100000000) (1 / 1000000)],
    Inr (True, vec5 (1 / 1000000) 0 0 0 (1 / 1000000),
         Some (vec5 (1 / 1000000) 0 0 0 (5 / 2000000))))"
  by (simp add: Clip_unfold PrimitiveToConservative_def perfect_gas_def vec5_simps)

subsection \<open>The Mach number in closed form\<close>

text \<open>
  The process is terminated for a negative squared sound speed only. At zero the quotient
  has divisor zero, and its value in the model is not the program's.
\<close>

lemma ComputeMachNumber_value:
  assumes "GetInternalEnergyPerUnitMass m (V 0) (V 4) = Inr e"
    and "ComputeSoundSpeedSquare m (V 0) e = Inr c2"
  shows "ComputeMachNumber m V =
           (if c2 < 0 then Inl (MachNumberError c2 [V 0, V 1, V 2, V 3, V 4])
            else Inr (sqrt (V 1 * V 1 + V 2 * V 2 + V 3 * V 3) / sqrt c2))"
  using assms by (simp add: ComputeMachNumber_def exit_mpi_def)

section \<open>Facts about rounding\<close>

subsection \<open>Powers of two and the nearest integer\<close>

lemma pow2_powr: "pow2 k = 2 powr (of_int k)"
  by (simp add: pow2_def powr_int)

lemma pow2_pos [simp]: "0 < pow2 k"
  by (simp add: pow2_def)

lemma pow2_add: "pow2 (j + k) = pow2 j * pow2 k"
  by (simp add: pow2_powr powr_add)

lemma pow2_less_iff: "pow2 a < pow2 b \<longleftrightarrow> a < b"
  by (simp add: pow2_powr)

lemma pow2_nonneg: "0 \<le> d \<Longrightarrow> pow2 d = of_int (2 ^ nat d)"
  by (simp add: pow2_def)

lemma round_even_error: "\<bar>of_int (round_even r) - r\<bar> \<le> 1 / 2"
  unfolding round_even_def Let_def by (auto; linarith)

lemma round_even_eqI:
  assumes "of_int n - 1 / 2 < r" and "r < of_int n + 1 / 2"
  shows "round_even r = n"
proof -
  consider "\<lfloor>r\<rfloor> = n" | "\<lfloor>r\<rfloor> = n - 1"
    using assms by linarith
  then show ?thesis
  proof cases
    case 1
    with assms show ?thesis by (simp add: round_even_def)
  next
    case 2
    with assms show ?thesis by (simp add: round_even_def)
  qed
qed

lemma round_even_of_int: "round_even (of_int z) = z"
  by (simp add: round_even_def)

subsection \<open>Evaluating a rounding\<close>

lemma floor_log2_eq:
  assumes "pow2 k \<le> \<bar>x\<bar>" and "\<bar>x\<bar> < pow2 (k + 1)"
  shows "\<lfloor>log 2 \<bar>x\<bar>\<rfloor> = k"
proof -
  have "0 < \<bar>x\<bar>"
    using assms(1) pow2_pos [of k] by linarith
  then show ?thesis
    using assms by (simp add: floor_log_eq_powr_iff pow2_powr)
qed

text \<open>Between \<open>2\<^sup>k\<close> and \<open>2\<^sup>k\<^sup>+\<^sup>1\<close> the rounding is to a multiple of \<open>2\<^sup>k\<^sup>-\<^sup>5\<^sup>2\<close>.\<close>

lemma fl53_eval:
  assumes "pow2 k \<le> \<bar>x\<bar>" and "\<bar>x\<bar> < pow2 (k + 1)"
  shows "fl53 x = pow2 (k - 52) * of_int (round_even (x / pow2 (k - 52)))"
proof -
  have "0 < \<bar>x\<bar>"
    using assms(1) pow2_pos [of k] by linarith
  then have "x \<noteq> 0" by auto
  then show ?thesis
    by (simp add: fl53_def Let_def floor_log2_eq [OF assms])
qed

text \<open>An integer of fewer than 54 bits times a power of two is representable.\<close>

lemma fl53_exact:
  assumes x: "x = of_int n * pow2 j" and n: "\<bar>n\<bar> < 2 ^ 53"
  shows "fl53 x = x"
proof (cases "x = 0")
  case True
  then show ?thesis by (simp add: fl53_def)
next
  case False
  define k where "k = \<lfloor>log 2 \<bar>x\<bar>\<rfloor>"
  have "pow2 k \<le> \<bar>x\<bar>"
    using False floor_log_eq_powr_iff [of "\<bar>x\<bar>" 2 k] by (simp add: k_def pow2_powr)
  also have "\<bar>x\<bar> = of_int \<bar>n\<bar> * pow2 j"
    by (simp add: x abs_mult abs_of_pos [OF pow2_pos])
  also have "\<dots> < 2 ^ 53 * pow2 j"
  proof -
    have "(of_int \<bar>n\<bar> :: real) < of_int (2 ^ 53)"
      using n by (simp only: of_int_less_iff)
    then show ?thesis by simp
  qed
  also have "\<dots> = pow2 (53 + j)"
    by (simp add: pow2_add pow2_def [of 53])
  finally have "k < 53 + j"
    by (simp add: pow2_less_iff)
  then have d: "0 \<le> j - (k - 52)" by simp
  have "pow2 j = pow2 (k - 52) * pow2 (j - (k - 52))"
    using pow2_add [of "k - 52" "j - (k - 52)"] by simp
  then have split: "x = pow2 (k - 52) * of_int (n * 2 ^ nat (j - (k - 52)))"
    by (simp add: x pow2_nonneg [OF d])
  have "pow2 (k - 52) \<noteq> 0"
    using pow2_pos [of "k - 52"] by linarith
  then have "x / pow2 (k - 52) = of_int (n * 2 ^ nat (j - (k - 52)))"
    by (subst split) (rule nonzero_mult_div_cancel_left)
  then have "round_even (x / pow2 (k - 52)) = n * 2 ^ nat (j - (k - 52))"
    by (simp only: round_even_of_int)
  then have "fl53 x = pow2 (k - 52) * of_int (n * 2 ^ nat (j - (k - 52)))"
    using False by (simp add: fl53_def Let_def k_def)
  with split show ?thesis by simp
qed

lemma fl53_values:
  "fl53 0 = 0" "fl53 1 = 1" "fl53 2 = 2" "fl53 (1 / 2) = 1 / 2" "fl53 (3 / 2) = 3 / 2"
  "fl53 49 = 49" "fl53 (49 / 2) = 49 / 2" "fl53 (147 / 2) = 147 / 2"
  "fl53 1000000000 = 1000000000"
  "fl53 1000000000000000000 = 1000000000000000000"
  "fl53 500000000000000000 = 500000000000000000"
proof -
  show "fl53 0 = 0" by (simp add: fl53_def)
  show "fl53 1 = 1" by (rule fl53_exact [of _ 1 0]) (simp_all add: pow2_def)
  show "fl53 2 = 2" by (rule fl53_exact [of _ 2 0]) (simp_all add: pow2_def)
  show "fl53 (1 / 2) = 1 / 2" by (rule fl53_exact [of _ 1 "- 1"]) (simp_all add: pow2_def)
  show "fl53 (3 / 2) = 3 / 2" by (rule fl53_exact [of _ 3 "- 1"]) (simp_all add: pow2_def)
  show "fl53 49 = 49" by (rule fl53_exact [of _ 49 0]) (simp_all add: pow2_def)
  show "fl53 (49 / 2) = 49 / 2" by (rule fl53_exact [of _ 49 "- 1"]) (simp_all add: pow2_def)
  show "fl53 (147 / 2) = 147 / 2" by (rule fl53_exact [of _ 147 "- 1"]) (simp_all add: pow2_def)
  show "fl53 1000000000 = 1000000000"
    by (rule fl53_exact [of _ 1000000000 0]) (simp_all add: pow2_def)
  show "fl53 1000000000000000000 = 1000000000000000000"
    by (rule fl53_exact [of _ 3814697265625 18]) (simp_all add: pow2_def)
  show "fl53 500000000000000000 = 500000000000000000"
    by (rule fl53_exact [of _ 3814697265625 17]) (simp_all add: pow2_def)
qed

lemma fl53_neg_one: "fl53 (- 1) = - 1"
  by (rule fl53_exact [of _ "- 1" 0]) (simp_all add: pow2_def)





text \<open>The binary64 square root of 2, and the binary64 square of that.\<close>

lemma fl53_sqrt2: "fl53 (sqrt 2) = 6369051672525773 / 2 ^ 52"
proof -
  have lo: "(6369051672525773 - 1 / 2) / 2 ^ 52 < sqrt 2"
    by (rule real_less_rsqrt) (simp add: power2_eq_square)
  have hi: "sqrt 2 < (6369051672525773 + 1 / 2) / 2 ^ 52"
    by (rule real_less_lsqrt) (simp_all add: power2_eq_square)
  have "1 \<le> sqrt 2" by simp
  moreover have "sqrt 2 < 2"
    by (rule real_less_lsqrt) simp_all
  ultimately have "fl53 (sqrt 2) = pow2 (0 - 52) * of_int (round_even (sqrt 2 / pow2 (0 - 52)))"
    by (intro fl53_eval) (simp_all add: pow2_def)
  moreover have "round_even (sqrt 2 / pow2 (0 - 52)) = 6369051672525773"
    using lo hi by (intro round_even_eqI) (simp_all add: pow2_def field_simps)
  ultimately show ?thesis
    by (simp add: pow2_def)
qed

lemma fl53_square_root2:
  "fl53 (6369051672525773 / 2 ^ 52 * (6369051672525773 / 2 ^ 52)) = 2 + 1 / 2 ^ 51"
proof -
  let ?x = "6369051672525773 / 2 ^ 52 * (6369051672525773 / 2 ^ 52) :: real"
  have "fl53 ?x = pow2 (1 - 52) * of_int (round_even (?x / pow2 (1 - 52)))"
    by (rule fl53_eval) (simp_all add: pow2_def)
  moreover have "round_even (?x / pow2 (1 - 52)) = 2 ^ 52 + 1"
    by (rule round_even_eqI) (simp_all add: pow2_def)
  ultimately show ?thesis
    by (simp add: pow2_def)
qed


subsection \<open>The size of a rounding error\<close>

text \<open>One rounding changes a value by at most \<open>2\<^sup>-\<^sup>5\<^sup>3\<close> of its magnitude.\<close>

lemma fl53_error: "\<bar>fl53 x - x\<bar> \<le> \<bar>x\<bar> / 2 ^ 53"
proof (cases "x = 0")
  case True
  then show ?thesis by (simp add: fl53_def)
next
  case False
  define k where "k = \<lfloor>log 2 \<bar>x\<bar>\<rfloor>"
  define q where "q = pow2 (k - 52)"
  have q: "0 < q" by (simp add: q_def)
  have lo: "pow2 k \<le> \<bar>x\<bar>"
    using False floor_log_eq_powr_iff [of "\<bar>x\<bar>" 2 k] by (simp add: k_def pow2_powr)
  have "fl53 x = q * of_int (round_even (x / q))"
    using False by (simp add: fl53_def Let_def k_def q_def)
  then have "fl53 x - x = q * (of_int (round_even (x / q)) - x / q)"
    using q by (simp add: field_simps)
  then have "\<bar>fl53 x - x\<bar> = q * \<bar>of_int (round_even (x / q)) - x / q\<bar>"
    using q by (simp add: abs_mult)
  also have "\<dots> \<le> q * (1 / 2)"
    using q round_even_error [of "x / q"] by (intro mult_left_mono) auto
  also have "q * (1 / 2) = pow2 k / 2 ^ 53"
    using pow2_add [of "k - 52" 52] by (simp add: q_def pow2_def [of 52])
  also have "\<dots> \<le> \<bar>x\<bar> / 2 ^ 53"
    using lo by (simp add: divide_right_mono)
  finally show ?thesis .
qed

lemma fl53_rel: "\<bar>fl53 x - x\<bar> \<le> \<bar>x\<bar> * (1 / 2 ^ 53)"
  using fl53_error [of x] by simp




text \<open>The square of a rounded square root.\<close>

lemma square_of_rounded_root:
  fixes s c u :: real
  assumes c: "\<bar>c - s\<bar> \<le> s * u" and s: "0 \<le> s" and u: "0 \<le> u"
  shows "\<bar>c\<^sup>2 - s\<^sup>2\<bar> \<le> ((1 + u)\<^sup>2 - 1) * s\<^sup>2"
proof -
  have "\<bar>c + s\<bar> \<le> s * (2 + u)"
    using c s by (simp add: algebra_simps)
  have "c\<^sup>2 - s\<^sup>2 = (c - s) * (c + s)"
    by (simp add: algebra_simps power2_eq_square)
  then have "\<bar>c\<^sup>2 - s\<^sup>2\<bar> = \<bar>c - s\<bar> * \<bar>c + s\<bar>"
    by (simp add: abs_mult)
  also have "\<dots> \<le> (s * u) * (s * (2 + u))"
    using c \<open>\<bar>c + s\<bar> \<le> s * (2 + u)\<close> s u by (intro mult_mono) auto
  also have "\<dots> = ((1 + u)\<^sup>2 - 1) * s\<^sup>2"
    by (simp add: algebra_simps power2_eq_square)
  finally show ?thesis .
qed

subsection \<open>The rounded transforms in closed form\<close>









section \<open>Mach number\<close>

text \<open>
  C1. The claim: \<^verbatim>\<open>ComputeMachNumber\<close> terminates the process whenever the squared sound
  speed is at most zero. The function tests \<^verbatim>\<open>c < 0\<close>, where \<^verbatim>\<open>ComputeSoundSpeed\<close>
  tests \<^verbatim>\<open>c2 <= 0\<close>. At the state \<open>(1, 1, 0, 0, 0)\<close> of the perfect gas the internal
  energy is zero and the squared sound speed is exactly zero: \<^verbatim>\<open>ComputeSoundSpeed\<close>
  terminates the process there, and \<^verbatim>\<open>ComputeMachNumber\<close> does not; it goes on to divide
  the speed by a sound speed of zero and returns.
\<close>

theorem ComputeMachNumber_zero_sound_speed:
  "GetInternalEnergyPerUnitMass perfect_gas 1 0 = Inr 0 \<and>
   ComputeSoundSpeedSquare perfect_gas 1 0 = Inr 0 \<and>
   isl (ComputeSoundSpeed perfect_gas 1 0) \<and>
   \<not> isl (ComputeMachNumber perfect_gas (vec5 1 1 0 0 0))"
proof -
  have e: "GetInternalEnergyPerUnitMass perfect_gas 1 0 = Inr 0"
    by (simp add: perfect_gas_def)
  have c2: "ComputeSoundSpeedSquare perfect_gas 1 0 = Inr 0"
    by (simp add: perfect_gas_def ComputeSoundSpeedSquare_def)
  have "isl (ComputeSoundSpeed perfect_gas 1 0)"
    by (simp add: perfect_gas_def ComputeSoundSpeed_def exit_mpi_def)
  moreover have "\<not> isl (ComputeMachNumber perfect_gas (vec5 1 1 0 0 0))"
    using ComputeMachNumber_value [of perfect_gas "vec5 1 1 0 0 0" 0 0] e c2
    by (simp add: vec5_simps)
  ultimately show ?thesis
    using e c2 by simp
qed

section \<open>Round trip of the two transforms\<close>




section \<open>Clipping\<close>

text \<open>
  C3. When \<^verbatim>\<open>ClipDensityAndPressure\<close> returns, the density of \<open>V\<close> is at least
  \<open>rhomin\<close> and its pressure at least \<open>pmin\<close>; the returned flag is true exactly when the
  density or the pressure was below its floor on entry; and when the flag is true and a
  conservative array was supplied, that array is what \<^verbatim>\<open>PrimitiveToConservative\<close> makes
  of the clamped \<open>V\<close>. The call fails to return only when the variant's energy relation
  terminates the process at the clamped density and pressure.
\<close>

theorem Clip_spec:
  "(\<forall>d. snd (ClipDensityAndPressure m V U) = Inl d \<longrightarrow>
      GetInternalEnergyPerUnitMass m (max (V 0) (rhomin m)) (max (V 4) (pmin m)) = Inl d) \<and>
   (\<forall>clip V' U'. snd (ClipDensityAndPressure m V U) = Inr (clip, V', U') \<longrightarrow>
      rhomin m \<le> V' 0 \<and> pmin m \<le> V' 4 \<and>
      (clip \<longleftrightarrow> V 0 < rhomin m \<or> V 4 < pmin m) \<and>
      (\<forall>U0. clip \<and> U = Some U0 \<longrightarrow>
         (\<exists>Uc. U' = Some Uc \<and> PrimitiveToConservative m V' U0 = Inr Uc)))"
proof (intro conjI allI impI)
  fix d
  assume "snd (ClipDensityAndPressure m V U) = Inl d"
  then show "GetInternalEnergyPerUnitMass m (max (V 0) (rhomin m)) (max (V 4) (pmin m)) = Inl d"
    by (cases U;
        cases "GetInternalEnergyPerUnitMass m (max (V 0) (rhomin m)) (max (V 4) (pmin m))")
       (auto simp add: Clip_unfold PrimitiveToConservative_def split: if_splits)
next
  fix clip V' U'
  assume ret: "snd (ClipDensityAndPressure m V U) = Inr (clip, V', U')"
  then show "rhomin m \<le> V' 0" "pmin m \<le> V' 4" "clip = (V 0 < rhomin m \<or> V 4 < pmin m)"
    by (cases U; cases "PrimitiveToConservative m
                    (V(0 := max (V 0) (rhomin m), 4 := max (V 4) (pmin m))) (the U)";
        auto simp add: Clip_unfold split: if_splits)+
  fix U0
  assume "clip \<and> U = Some U0"
  with ret show "\<exists>Uc. U' = Some Uc \<and> PrimitiveToConservative m V' U0 = Inr Uc"
    by (cases "PrimitiveToConservative m
                    (V(0 := max (V 0) (rhomin m), 4 := max (V 4) (pmin m))) U0")
       (auto simp add: Clip_unfold split: if_splits)
qed

text \<open>Scenario B: both clamps fire, and the conservative array is recomputed.\<close>

theorem Clip_spec_witness:
  "snd (ClipDensityAndPressure perfect_gas (vec5 (1 / 100000000) 0 0 0 (1 / 100000000))
          (Some (vec5 0 0 0 0 0))) =
     Inr (True, vec5 (1 / 1000000) 0 0 0 (1 / 1000000),
          Some (vec5 (1 / 1000000) 0 0 0 (5 / 2000000))) \<and>
   rhomin perfect_gas \<le> vec5 (1 / 1000000) 0 0 0 (1 / 1000000) 0 \<and>
   pmin perfect_gas \<le> vec5 (1 / 1000000) 0 0 0 (1 / 1000000) 4 \<and>
   PrimitiveToConservative perfect_gas (vec5 (1 / 1000000) 0 0 0 (1 / 1000000)) (vec5 0 0 0 0 0) =
     Inr (vec5 (1 / 1000000) 0 0 0 (5 / 2000000))"
  using Clip_spec [of perfect_gas "vec5 (1 / 100000000) 0 0 0 (1 / 100000000)"
      "Some (vec5 0 0 0 0 0)"]
  by (auto simp add: Clip_scenario_B)

text \<open>
  C4. When a call of \<^verbatim>\<open>ClipDensityAndPressure\<close> has returned, a second call on the
  arrays it left writes no diagnostic, returns false and leaves both arrays as they are.
\<close>

theorem Clip_twice:
  assumes "snd (ClipDensityAndPressure m V U) = Inr (clip, V', U')"
  shows "ClipDensityAndPressure m V' U' = ([], Inr (False, V', U'))"
proof -
  from assms have "rhomin m \<le> V' 0" and "pmin m \<le> V' 4"
    by (cases U; cases "PrimitiveToConservative m
                    (V(0 := max (V 0) (rhomin m), 4 := max (V 4) (pmin m))) (the U)";
        auto simp add: Clip_unfold split: if_splits)+
  then show ?thesis
    by (cases U') (simp_all add: Clip_unfold max_def)
qed

theorem Clip_twice_witness:
  "ClipDensityAndPressure perfect_gas (vec5 (1 / 1000000) 0 0 0 (1 / 1000000))
     (Some (vec5 (1 / 1000000) 0 0 0 (5 / 2000000))) =
   ([], Inr (False, vec5 (1 / 1000000) 0 0 0 (1 / 1000000),
             Some (vec5 (1 / 1000000) 0 0 0 (5 / 2000000))))"
  using Clip_twice [of perfect_gas "vec5 (1 / 100000000) 0 0 0 (1 / 100000000)"
      "Some (vec5 0 0 0 0 0)"]
  by (simp add: Clip_scenario_B)




text \<open>
  C10. Whenever \<^verbatim>\<open>ClipDensityAndPressure\<close> returns, the three velocity entries of \<open>V\<close>
  are those on entry. When the density and the pressure are at least their floors on
  entry, the call writes no diagnostic, returns false and leaves \<open>V\<close> and the
  conservative array as they are.
\<close>

theorem Clip_frame:
  "(\<forall>clip V' U'. snd (ClipDensityAndPressure m V U) = Inr (clip, V', U') \<longrightarrow>
      V' 1 = V 1 \<and> V' 2 = V 2 \<and> V' 3 = V 3) \<and>
   (rhomin m \<le> V 0 \<and> pmin m \<le> V 4 \<longrightarrow>
      ClipDensityAndPressure m V U = ([], Inr (False, V, U)))"
  by (cases U; cases "PrimitiveToConservative m
                    (V(0 := max (V 0) (rhomin m), 4 := max (V 4) (pmin m))) (the U)")
     (auto simp add: Clip_unfold split: if_splits)

text \<open>
  A state whose density alone is below its floor, and a state above both floors.
\<close>

theorem Clip_frame_witness:
  "snd (ClipDensityAndPressure perfect_gas (vec5 (1 / 100000000) 2 3 4 1)
          (Some (vec5 0 0 0 0 0))) =
     Inr (True, vec5 (1 / 1000000) 2 3 4 1,
          Some (vec5 (1 / 1000000) (2 / 1000000) (3 / 1000000) (4 / 1000000)
                  (5000029 / 2000000))) \<and>
   vec5 (1 / 1000000) 2 3 4 1 1 = vec5 (1 / 100000000) 2 3 4 1 1 \<and>
   vec5 (1 / 1000000) 2 3 4 1 2 = vec5 (1 / 100000000) 2 3 4 1 2 \<and>
   vec5 (1 / 1000000) 2 3 4 1 3 = vec5 (1 / 100000000) 2 3 4 1 3 \<and>
   ClipDensityAndPressure perfect_gas (vec5 1 2 3 4 1) (Some (vec5 0 0 0 0 0)) =
     ([], Inr (False, vec5 1 2 3 4 1, Some (vec5 0 0 0 0 0)))"
proof -
  have ret: "snd (ClipDensityAndPressure perfect_gas (vec5 (1 / 100000000) 2 3 4 1)
          (Some (vec5 0 0 0 0 0))) =
     Inr (True, vec5 (1 / 1000000) 2 3 4 1,
          Some (vec5 (1 / 1000000) (2 / 1000000) (3 / 1000000) (4 / 1000000)
                  (5000029 / 2000000)))"
    by (simp add: Clip_unfold PrimitiveToConservative_def perfect_gas_def vec5_simps)
  have floors: "rhomin perfect_gas \<le> vec5 1 2 3 4 1 0 \<and> pmin perfect_gas \<le> vec5 1 2 3 4 1 4"
    by (simp add: perfect_gas_def vec5_simps)
  show ?thesis
    using ret floors
      Clip_frame [of perfect_gas "vec5 (1 / 100000000) 2 3 4 1" "Some (vec5 0 0 0 0 0)"]
      Clip_frame [of perfect_gas "vec5 1 2 3 4 1" "Some (vec5 0 0 0 0 0)"]
    by auto
qed

section \<open>Sound speed\<close>

text \<open>
  C6, as amended. Let the density be nonzero and let the three relations return \<open>d\<close>,
  \<open>p\<close> and \<open>g\<close> at \<open>(rho, e)\<close>. Then \<^verbatim>\<open>ComputeSoundSpeedSquare\<close> returns a value
  \<open>c2\<close>, which is the binary64 value of \<open>d + p / rho * g\<close> when none of the three
  operations overflows or underflows; \<^verbatim>\<open>ComputeSoundSpeed\<close> terminates the process
  exactly when \<open>c2\<close> is at most zero, and otherwise returns the binary64 value nearest to
  the square root of \<open>c2\<close>, whose square differs from \<open>c2\<close> by at most
  \<open>(1 + 2\<^sup>-\<^sup>5\<^sup>3)\<^sup>2 - 1\<close> of \<open>c2\<close>.
\<close>

theorem sound_speed_rounded:
  assumes "GetDpdrho m rho e = Inr d"
    and "GetPressure m rho e = Inr p"
    and "GetBigGamma m rho e = Inr g"
    and "rho \<noteq> 0"
  shows "\<exists>c2. ComputeSoundSpeedSquare_fl m rho e = Inr c2 \<and>
           (normal_range (p / rho) \<and> normal_range (fl53 (p / rho) * g) \<and>
            normal_range (d + fl53 (fl53 (p / rho) * g)) \<longrightarrow>
              c2 = fl53 (d + fl53 (fl53 (p / rho) * g))) \<and>
           (isl (ComputeSoundSpeed_fl m rho e) \<longleftrightarrow> c2 \<le> 0) \<and>
           (0 < c2 \<longrightarrow>
              ComputeSoundSpeed_fl m rho e = Inr (fl53 (sqrt c2)) \<and>
              \<bar>(fl53 (sqrt c2))\<^sup>2 - c2\<bar> \<le> ((1 + 1 / 2 ^ 53)\<^sup>2 - 1) * c2)"
proof -
  define c2 where "c2 = fl53 (d + fl53 (fl53 (p / rho) * g))"
  have "\<bar>(fl53 (sqrt c2))\<^sup>2 - c2\<bar> \<le> ((1 + 1 / 2 ^ 53)\<^sup>2 - 1) * c2" if "0 < c2"
  proof -
    have "\<bar>fl53 (sqrt c2) - sqrt c2\<bar> \<le> sqrt c2 * (1 / 2 ^ 53)"
      using fl53_rel [of "sqrt c2"] that by simp
    from square_of_rounded_root [OF this] that
    show ?thesis by simp
  qed
  then have "ComputeSoundSpeedSquare_fl m rho e = Inr c2 \<and>
           (normal_range (p / rho) \<and> normal_range (fl53 (p / rho) * g) \<and>
            normal_range (d + fl53 (fl53 (p / rho) * g)) \<longrightarrow>
              c2 = fl53 (d + fl53 (fl53 (p / rho) * g))) \<and>
           (isl (ComputeSoundSpeed_fl m rho e) \<longleftrightarrow> c2 \<le> 0) \<and>
           (0 < c2 \<longrightarrow>
              ComputeSoundSpeed_fl m rho e = Inr (fl53 (sqrt c2)) \<and>
              \<bar>(fl53 (sqrt c2))\<^sup>2 - c2\<bar> \<le> ((1 + 1 / 2 ^ 53)\<^sup>2 - 1) * c2)"
    using assms
    by (simp add: ComputeSoundSpeedSquare_fl_def ComputeSoundSpeed_fl_def Let_def exit_mpi_def
        c2_def)
  then show ?thesis ..
qed

text \<open>
  At density 1 of the variant \<open>energy_eos\<close>: with energy 2 the squared sound speed is 2
  and the root is returned; with energy \<open>-1\<close> it is \<open>-1\<close> and the process is terminated.
\<close>

theorem sound_speed_rounded_witness:
  "normal_range (2 / 1) \<and> normal_range (fl53 (2 / 1) * 1) \<and>
   normal_range (0 + fl53 (fl53 (2 / 1) * 1)) \<and>
   ComputeSoundSpeedSquare_fl energy_eos 1 2 = Inr 2 \<and>
   ComputeSoundSpeed_fl energy_eos 1 2 = Inr (fl53 (sqrt 2)) \<and>
   \<bar>(fl53 (sqrt 2))\<^sup>2 - 2\<bar> \<le> ((1 + 1 / 2 ^ 53)\<^sup>2 - 1) * 2 \<and>
   ComputeSoundSpeedSquare_fl energy_eos 1 (- 1) = Inr (- 1) \<and>
   isl (ComputeSoundSpeed_fl energy_eos 1 (- 1))"
proof -
  have r: "normal_range (2 / 1) \<and> normal_range (fl53 (2 / 1) * 1) \<and>
      normal_range (0 + fl53 (fl53 (2 / 1) * 1))"
    by (simp add: normal_range_def pow2_def fl53_values)
  have s2: "ComputeSoundSpeedSquare_fl energy_eos 1 2 = Inr 2"
    by (simp add: ComputeSoundSpeedSquare_fl_def energy_eos_def fl53_values)
  have s1: "ComputeSoundSpeedSquare_fl energy_eos 1 (- 1) = Inr (- 1)"
    by (simp add: ComputeSoundSpeedSquare_fl_def energy_eos_def fl53_values fl53_neg_one)
  from sound_speed_rounded [of energy_eos 1 2 0 2 1] s2
  have "ComputeSoundSpeed_fl energy_eos 1 2 = Inr (fl53 (sqrt 2)) \<and>
      \<bar>(fl53 (sqrt 2))\<^sup>2 - 2\<bar> \<le> ((1 + 1 / 2 ^ 53)\<^sup>2 - 1) * 2"
    by (auto simp add: energy_eos_def)
  moreover from sound_speed_rounded [of energy_eos 1 "- 1" 0 "- 1" 1] s1
  have "isl (ComputeSoundSpeed_fl energy_eos 1 (- 1))"
    by (auto simp add: energy_eos_def)
  ultimately show ?thesis
    using r s1 s2 by blast
qed

text \<open>
  C6 as stated fails in its last clause. At density 1 and energy 2 of the variant
  \<open>energy_eos\<close> the squared sound speed is 2, and \<^verbatim>\<open>ComputeSoundSpeed\<close> returns the
  binary64 square root of 2. Its square is not 2, and the binary64 product of it with
  itself is \<open>2 + 2\<^sup>-\<^sup>5\<^sup>1\<close>.
\<close>

theorem sound_speed_square_not_exact:
  "ComputeSoundSpeedSquare_fl energy_eos 1 2 = Inr 2 \<and>
   ComputeSoundSpeed_fl energy_eos 1 2 = Inr (6369051672525773 / 2 ^ 52) \<and>
   (6369051672525773 / 2 ^ 52) * (6369051672525773 / 2 ^ 52) \<noteq> (2::real) \<and>
   fl53 (6369051672525773 / 2 ^ 52 * (6369051672525773 / 2 ^ 52)) = 2 + 1 / 2 ^ 51"
proof (intro conjI)
  show "ComputeSoundSpeedSquare_fl energy_eos 1 2 = Inr 2"
    by (simp add: ComputeSoundSpeedSquare_fl_def energy_eos_def fl53_values)
  show "ComputeSoundSpeed_fl energy_eos 1 2 = Inr (6369051672525773 / 2 ^ 52)"
    by (simp add: ComputeSoundSpeed_fl_def energy_eos_def fl53_values fl53_sqrt2)
  show "(6369051672525773 / 2 ^ 52) * (6369051672525773 / 2 ^ 52) \<noteq> (2::real)"
    by simp
  show "fl53 (6369051672525773 / 2 ^ 52 * (6369051672525773 / 2 ^ 52)) = 2 + 1 / 2 ^ 51"
    by (rule fl53_square_root2)
qed

section \<open>Hyperbolicity check\<close>



section \<open>Total enthalpy\<close>



section \<open>The unimplemented relations\<close>

text \<open>
  C9. On an object of the base class itself each of the five relations, for every pair of
  arguments, writes its own message and terminates the process; none returns a value.
\<close>

theorem base_relations_fatal:
  "GetPressure (VarFcnBase_new data vb) x y =
     Inl (NotDefined (''*** Error:  GetPressure Function not defined'' @ endl))
   \<and> GetInternalEnergyPerUnitMass (VarFcnBase_new data vb) x y =
     Inl (NotDefined (''*** Error:  GetInternalEnergyPerUnitMass Function not defined'' @ endl))
   \<and> GetDensity (VarFcnBase_new data vb) x y =
     Inl (NotDefined (''*** Error:  GetDensity Function not defined'' @ endl))
   \<and> GetDpdrho (VarFcnBase_new data vb) x y =
     Inl (NotDefined (''*** Error:  GetDpdrho Function not defined'' @ endl))
   \<and> GetBigGamma (VarFcnBase_new data vb) x y =
     Inl (NotDefined (''*** Error:  GetBigGamma Function not defined'' @ endl))"
  by (simp add: VarFcnBase_new_def exit_mpi_def)

end
